theory Spec2Isabelle
  imports Main "HOL-Library.AList" "HOL-Library.Sublist"
begin

section \<open>Python values, dictionaries and exceptions\<close>

text \<open>
  The module under verification is \<^verbatim>\<open>txaws/server/schema.py\<close> (Python 2). A Python
  \<^verbatim>\<open>dict\<close> is modelled as an association list with distinct keys; the order of the
  list is the order in which \<^verbatim>\<open>iteritems()\<close> visits the entries. Python 2 leaves that
  order unspecified, so a statement quantified over all such lists covers every iteration
  order; a dictionary that the code builds itself is modelled in insertion order, and
  statements about it are phrased through lookups where the order could matter.
  A raised exception is the \<open>Inl\<close> branch of a sum.
\<close>

datatype py_error =
    ValueError | UnicodeDecodeError | UnicodeEncodeError | TypeError | KeyError
  | AttributeError | IndexError | NotImplementedError | AssertionError | RuntimeError string

text \<open>
  \<^verbatim>\<open>except ValueError\<close> also catches its subclasses \<^verbatim>\<open>UnicodeDecodeError\<close> and
  \<^verbatim>\<open>UnicodeEncodeError\<close>.
\<close>

definition is_ValueError :: "py_error \<Rightarrow> bool" where
  "is_ValueError e = (e = ValueError \<or> e = UnicodeDecodeError \<or> e = UnicodeEncodeError)"

text \<open>
  The message of an \<^verbatim>\<open>InvalidParameterValueError\<close>: the range message
  \<^verbatim>\<open>"Value (%s) for parameter %s is invalid.  %s"\<close> keeps its three arguments, the other
  two are \<^verbatim>\<open>"Invalid %s value %s"\<close> and \<^verbatim>\<open>"Invalid %s value"\<close>.
\<close>

datatype message =
    Range_message string "string option" string
  | Invalid_value_message string "nat list"
  | Invalid_message string

text \<open>The request-error taxonomy: the four subclasses of \<^verbatim>\<open>SchemaError\<close>.\<close>

datatype schema_error =
    MissingParameterError "string option"
  | InvalidParameterValueError message
  | InvalidParameterCombinationError string
  | UnknownParameterError string

datatype error = SchemaError schema_error | PyError py_error

text \<open>
  A raw request value is a byte string; \<^verbatim>\<open>_convert_flat_to_nest\<close> nests raw values (and,
  for the legacy schema conversion, parameters) under string keys.
\<close>

datatype 'a nest = Leaf 'a | Dict "(string \<times> 'a nest) list"

datatype key = KStr string | KInt int

text \<open>
  A \<^verbatim>\<open>datetime\<close>; \<open>tzinfo\<close> is the UTC offset in seconds of an aware value and
  \<open>None\<close> for a naive one.
\<close>

record datetime =
  year :: int
  month :: int
  day :: int
  hour :: int
  minute :: int
  second :: int
  microsecond :: int
  tzinfo :: "int option"

datatype "value" =
    VNone | VStr string | VUnicode "nat list" | VInt int | VBool bool | VDate datetime
  | VList "value list" | VDict "(key \<times> value) list" | VArguments "(key \<times> value) list"

text \<open>
  Class \<^verbatim>\<open>Parameter\<close> and its subclasses. The attributes \<^verbatim>\<open>default\<close>, \<^verbatim>\<open>min\<close> and
  \<^verbatim>\<open>max\<close> carry the suffix \<open>_p\<close>; \<open>ptype\<close> is the subclass with its own attributes
  (\<^verbatim>\<open>mapping\<close> and \<^verbatim>\<open>reverse\<close> of an Enum, \<^verbatim>\<open>item\<close> of a List, \<^verbatim>\<open>fields\<close> of a
  Structure).
\<close>

datatype param =
  Parameter (name: "string option") (optional: bool) (default_p: "value")
    (min_p: "int option") (max_p: "int option") (allow_none: bool)
    (validator: "(value \<Rightarrow> bool) option") (ptype: ptype)
and ptype =
    Unicode | RawStr | Integer | Bool
  | Enum "(string \<times> value) list" "(value \<times> string) list"
  | Date | List param | Structure "(string \<times> param) list"

text \<open>
  What the module takes from outside: the UTF-8 codec of \<^verbatim>\<open>str\<close> and \<^verbatim>\<open>unicode\<close>,
  \<^verbatim>\<open>dateutil.parser.parse\<close>, the rendering done by \<^verbatim>\<open>Date.format\<close> through
  \<^verbatim>\<open>utctimetuple\<close> and \<^verbatim>\<open>strftime\<close>, and \<^verbatim>\<open>str()\<close> of a value that is not a
  string, a number or \<^verbatim>\<open>None\<close>. They are parameters of the model.
\<close>

record env =
  utf8_decode :: "string \<Rightarrow> nat list option"
  utf8_encode :: "nat list \<Rightarrow> string"
  dateutil_parse :: "string nest \<Rightarrow> py_error + datetime"
  utc_strftime :: "datetime \<Rightarrow> py_error + string"
  str_object :: "value \<Rightarrow> string"

subsection \<open>Builtins: \<^verbatim>\<open>str.split\<close>, \<^verbatim>\<open>int\<close>, \<^verbatim>\<open>str\<close>, list assignment\<close>

text \<open>\<^verbatim>\<open>key.split(".")\<close>: never empty, \<^verbatim>\<open>"".split(".") == [""]\<close>.\<close>

fun split_dot :: "string \<Rightarrow> string list" where
  "split_dot [] = [[]]"
| "split_dot (c # cs) =
     (if c = CHR ''.'' then [] # split_dot cs
      else (case split_dot cs of [] \<Rightarrow> [[c]] | w # ws \<Rightarrow> (c # w) # ws))"

text \<open>\<^verbatim>\<open>".".join(parts)\<close>\<close>

fun join_dot :: "string list \<Rightarrow> string" where
  "join_dot [] = []"
| "join_dot [w] = w"
| "join_dot (w # ws) = w @ CHR ''.'' # join_dot ws"

text \<open>
  \<^verbatim>\<open>int(s)\<close> for a byte string in base 10: surrounding white space is dropped, then an
  optional sign and at least one decimal digit; anything else is a \<^verbatim>\<open>ValueError\<close>
  (\<open>None\<close>).
\<close>

definition is_space :: "char \<Rightarrow> bool" where
  "is_space c = (c \<in> set [CHR '' '', CHR 0x09, CHR 0x0A, CHR 0x0B, CHR 0x0C, CHR 0x0D])"

definition strip :: "string \<Rightarrow> string" where
  "strip s = rev (dropWhile is_space (rev (dropWhile is_space s)))"

definition is_digit :: "char \<Rightarrow> bool" where
  "is_digit c = (c \<in> set ''0123456789'')"

definition digit_val :: "char \<Rightarrow> int" where
  "digit_val c = int (of_char c) - 48"

definition digits_int :: "string \<Rightarrow> int option" where
  "digits_int ds =
     (if ds \<noteq> [] \<and> list_all is_digit ds
      then Some (foldl (\<lambda>a c. 10 * a + digit_val c) 0 ds) else None)"

definition py_int :: "string \<Rightarrow> int option" where
  "py_int s =
     (case strip s of
        [] \<Rightarrow> None
      | c # ds \<Rightarrow>
          if c = CHR ''-'' then map_option uminus (digits_int ds)
          else if c = CHR ''+'' then digits_int ds
          else digits_int (c # ds))"

text \<open>\<^verbatim>\<open>str(i)\<close> of an integer.\<close>

fun str_nat :: "nat \<Rightarrow> string" where
  "str_nat n =
     (if n < 10 then [''0123456789'' ! n]
      else str_nat (n div 10) @ [''0123456789'' ! (n mod 10)])"

definition str_int :: "int \<Rightarrow> string" where
  "str_int i = (if i < 0 then CHR ''-'' # str_nat (nat (- i)) else str_nat (nat i))"

text \<open>\<^verbatim>\<open>"%s" % name\<close> for a name that may be \<^verbatim>\<open>None\<close>.\<close>

definition str_name :: "string option \<Rightarrow> string" where
  "str_name n = (case n of None \<Rightarrow> ''None'' | Some s \<Rightarrow> s)"

text \<open>
  \<^verbatim>\<open>xs[i] = v\<close>: a negative index counts from the end, an index out of range raises
  \<^verbatim>\<open>IndexError\<close>.
\<close>

definition list_setitem :: "'a list \<Rightarrow> int \<Rightarrow> 'a \<Rightarrow> py_error + 'a list" where
  "list_setitem xs i v =
     (let n = int (length xs) in
      if 0 \<le> i \<and> i < n then Inr (xs[nat i := v])
      else if - n \<le> i \<and> i < 0 then Inr (xs[nat (n + i) := v])
      else Inl IndexError)"

text \<open>A nested raw value as the Python object it is (a \<^verbatim>\<open>str\<close> or a \<^verbatim>\<open>dict\<close>).\<close>

fun nest_value :: "string nest \<Rightarrow> value" where
  "nest_value (Leaf s) = VStr s"
| "nest_value (Dict items) = VDict (map (\<lambda>(k, v). (KStr k, nest_value v)) items)"

section \<open>Parameter types: \<^verbatim>\<open>parse\<close>, \<^verbatim>\<open>measure\<close>\<close>

definition Unicode_parse :: "env \<Rightarrow> string nest \<Rightarrow> error + value" where
  "Unicode_parse E v =
     (case v of
        Leaf s \<Rightarrow>
          (case utf8_decode E s of
             None \<Rightarrow> Inl (PyError UnicodeDecodeError)
           | Some u \<Rightarrow> Inr (VUnicode u))
      | Dict d \<Rightarrow> Inl (PyError AttributeError))"

definition RawStr_parse :: "env \<Rightarrow> string nest \<Rightarrow> error + value" where
  "RawStr_parse E v =
     (case v of
        Leaf s \<Rightarrow> Inr (VStr s)
      | Dict d \<Rightarrow> Inr (VStr (str_object E (nest_value (Dict d)))))"

definition Integer_parse :: "string nest \<Rightarrow> error + value" where
  "Integer_parse v =
     (case v of
        Leaf s \<Rightarrow> (case py_int s of None \<Rightarrow> Inl (PyError ValueError) | Some i \<Rightarrow> Inr (VInt i))
      | Dict d \<Rightarrow> Inl (PyError TypeError))"

definition Bool_parse :: "string nest \<Rightarrow> error + value" where
  "Bool_parse v =
     (if v = Leaf ''true'' then Inr (VBool True)
      else if v = Leaf ''false'' then Inr (VBool False)
      else Inl (PyError ValueError))"

definition Enum_parse :: "(string \<times> value) list \<Rightarrow> string nest \<Rightarrow> error + value" where
  "Enum_parse mapping v =
     (case v of
        Leaf s \<Rightarrow> (case map_of mapping s of None \<Rightarrow> Inl (PyError ValueError) | Some x \<Rightarrow> Inr x)
      | Dict d \<Rightarrow> Inl (PyError TypeError))"

text \<open>\<^verbatim>\<open>parse(value).replace(tzinfo=tzutc())\<close>: the fields stay, the zone becomes UTC.\<close>

definition Date_parse :: "env \<Rightarrow> string nest \<Rightarrow> error + value" where
  "Date_parse E v =
     (case dateutil_parse E v of
        Inl e \<Rightarrow> Inl (PyError e)
      | Inr d \<Rightarrow> Inr (VDate (d\<lparr>tzinfo := Some 0\<rparr>)))"

text \<open>
  \<^verbatim>\<open>parse\<close> dispatches on the class. \<^verbatim>\<open>List.parse\<close> fills \<^verbatim>\<open>[None] * len(value)\<close> at
  \<^verbatim>\<open>int(k) - 1\<close>; the right-hand side \<^verbatim>\<open>self.item.parse(v)\<close> is evaluated before the
  index. \<^verbatim>\<open>Structure.parse\<close> looks each key up in \<^verbatim>\<open>self.fields\<close>.
\<close>

fun parse :: "env \<Rightarrow> param \<Rightarrow> string nest \<Rightarrow> error + value"
and List_parse_loop ::
  "env \<Rightarrow> param \<Rightarrow> (string \<times> string nest) list \<Rightarrow> value list \<Rightarrow> error + value list"
and Structure_parse_loop ::
  "env \<Rightarrow> (string \<times> param) list \<Rightarrow> (string \<times> string nest) list \<Rightarrow> (key \<times> value) list
     \<Rightarrow> error + (key \<times> value) list"
where
  "parse E self (Leaf s) =
     (case ptype self of
        Unicode \<Rightarrow> Unicode_parse E (Leaf s)
      | RawStr \<Rightarrow> RawStr_parse E (Leaf s)
      | Integer \<Rightarrow> Integer_parse (Leaf s)
      | Bool \<Rightarrow> Bool_parse (Leaf s)
      | Enum mapping reverse \<Rightarrow> Enum_parse mapping (Leaf s)
      | Date \<Rightarrow> Date_parse E (Leaf s)
      | List item \<Rightarrow> Inl (PyError AttributeError)
      | Structure flds \<Rightarrow> Inl (PyError AttributeError))"
| "parse E self (Dict items) =
     (case ptype self of
        Unicode \<Rightarrow> Unicode_parse E (Dict items)
      | RawStr \<Rightarrow> RawStr_parse E (Dict items)
      | Integer \<Rightarrow> Integer_parse (Dict items)
      | Bool \<Rightarrow> Bool_parse (Dict items)
      | Enum mapping reverse \<Rightarrow> Enum_parse mapping (Dict items)
      | Date \<Rightarrow> Date_parse E (Dict items)
      | List item \<Rightarrow>
          (case List_parse_loop E item items (replicate (length items) VNone) of
             Inl e \<Rightarrow> Inl e
           | Inr result \<Rightarrow> Inr (VList result))
      | Structure flds \<Rightarrow>
          (case Structure_parse_loop E flds items [] of
             Inl e \<Rightarrow> Inl e
           | Inr result \<Rightarrow> Inr (VDict result)))"
| "List_parse_loop E item [] result = Inr result"
| "List_parse_loop E item ((k, v) # rest) result =
     (case parse E item v of
        Inl e \<Rightarrow> Inl e
      | Inr x \<Rightarrow>
          (case py_int k of
             None \<Rightarrow> Inl (PyError ValueError)
           | Some i \<Rightarrow>
               (case list_setitem result (i - 1) x of
                  Inl e \<Rightarrow> Inl (PyError e)
                | Inr result' \<Rightarrow> List_parse_loop E item rest result')))"
| "Structure_parse_loop E flds [] result = Inr result"
| "Structure_parse_loop E flds ((k, v) # rest) result =
     (case map_of flds k of
        None \<Rightarrow> Inl (PyError KeyError)
      | Some field \<Rightarrow>
          (case parse E field v of
             Inl e \<Rightarrow> Inl e
           | Inr x \<Rightarrow> Structure_parse_loop E flds rest (AList.update (KStr k) x result)))"

text \<open>
  \<^verbatim>\<open>measure\<close> is defined by Unicode (\<^verbatim>\<open>len\<close> of the raw string) and Integer
  (\<^verbatim>\<open>int(value)\<close>); the base class raises \<^verbatim>\<open>NotImplementedError\<close>.
\<close>

definition measure_p :: "param \<Rightarrow> string \<Rightarrow> error + int" where
  "measure_p self v =
     (case ptype self of
        Unicode \<Rightarrow> Inr (int (length v))
      | Integer \<Rightarrow> (case py_int v of None \<Rightarrow> Inl (PyError ValueError) | Some i \<Rightarrow> Inr i)
      | _ \<Rightarrow> Inl (PyError NotImplementedError))"

definition lower_than_min_template :: "param \<Rightarrow> int \<Rightarrow> error + string" where
  "lower_than_min_template self b =
     (case ptype self of
        Unicode \<Rightarrow> Inr (''Length must be at least '' @ str_int b @ ''.'')
      | Integer \<Rightarrow> Inr (''Value must be at least '' @ str_int b @ ''.'')
      | _ \<Rightarrow> Inl (PyError AttributeError))"

definition greater_than_max_template :: "param \<Rightarrow> int \<Rightarrow> error + string" where
  "greater_than_max_template self b =
     (case ptype self of
        Unicode \<Rightarrow> Inr (''Length exceeds maximum of '' @ str_int b @ ''.'')
      | Integer \<Rightarrow> Inr (''Value exceeds maximum of '' @ str_int b @ ''.'')
      | _ \<Rightarrow> Inl (PyError AttributeError))"

text \<open>The class attribute \<^verbatim>\<open>kind\<close>; List and Structure have none.\<close>

definition kind :: "param \<Rightarrow> error + string" where
  "kind self =
     (case ptype self of
        Unicode \<Rightarrow> Inr ''unicode''
      | RawStr \<Rightarrow> Inr ''raw string''
      | Integer \<Rightarrow> Inr ''integer''
      | Bool \<Rightarrow> Inr ''boolean''
      | Enum mapping reverse \<Rightarrow> Inr ''enum''
      | Date \<Rightarrow> Inr ''date''
      | _ \<Rightarrow> Inl (PyError AttributeError))"

section \<open>\<^verbatim>\<open>Parameter.coerce\<close>\<close>

text \<open>\<^verbatim>\<open>Parameter._check_range\<close>\<close>

definition check_range :: "param \<Rightarrow> string \<Rightarrow> error + unit" where
  "check_range self v =
     (if min_p self = None \<and> max_p self = None then Inr ()
      else
        (case measure_p self v of
           Inl e \<Rightarrow> Inl e
         | Inr m \<Rightarrow>
             if min_p self \<noteq> None \<and> m < the (min_p self) then
               (case lower_than_min_template self (the (min_p self)) of
                  Inl e \<Rightarrow> Inl e
                | Inr t \<Rightarrow>
                    Inl (SchemaError (InvalidParameterValueError
                      (Range_message v (name self) t))))
             else if max_p self \<noteq> None \<and> m > the (max_p self) then
               (case greater_than_max_template self (the (max_p self)) of
                  Inl e \<Rightarrow> Inl e
                | Inr t \<Rightarrow>
                    Inl (SchemaError (InvalidParameterValueError
                      (Range_message v (name self) t))))
             else Inr ()))"

text \<open>The body of the \<^verbatim>\<open>try\<close> block of \<^verbatim>\<open>coerce\<close>.\<close>

definition coerce_try :: "env \<Rightarrow> param \<Rightarrow> string \<Rightarrow> error + value" where
  "coerce_try E self v =
     (case check_range self v of
        Inl e \<Rightarrow> Inl e
      | Inr u \<Rightarrow>
          (case parse E self (Leaf v) of
             Inl e \<Rightarrow> Inl e
           | Inr parsed \<Rightarrow>
               if validator self \<noteq> None \<and> \<not> (the (validator self)) parsed
               then Inl (PyError ValueError)
               else Inr parsed))"

text \<open>The \<^verbatim>\<open>except ValueError\<close> handler of \<^verbatim>\<open>coerce\<close>.\<close>

definition coerce_except :: "env \<Rightarrow> param \<Rightarrow> string \<Rightarrow> error + value" where
  "coerce_except E self v =
     (case kind self of
        Inl e \<Rightarrow> Inl e
      | Inr k \<Rightarrow>
          (case utf8_decode E v of
             Some u \<Rightarrow> Inl (SchemaError (InvalidParameterValueError (Invalid_value_message k u)))
           | None \<Rightarrow> Inl (SchemaError (InvalidParameterValueError (Invalid_message k)))))"

text \<open>\<^verbatim>\<open>coerce(value)\<close>, where \<open>None\<close> is Python's \<^verbatim>\<open>None\<close>: no value at all.\<close>

definition coerce :: "env \<Rightarrow> param \<Rightarrow> string option \<Rightarrow> error + value" where
  "coerce E self v =
     (if v = None \<and> optional self then Inr (default_p self)
      else
        (let v' = (case v of None \<Rightarrow> [] | Some s \<Rightarrow> s) in
         if v' = [] then
           (if \<not> allow_none self then Inl (SchemaError (MissingParameterError (name self)))
            else Inr (default_p self))
         else
           (case coerce_try E self v' of
              Inl (PyError e) \<Rightarrow>
                if is_ValueError e then coerce_except E self v' else Inl (PyError e)
            | Inl (SchemaError e) \<Rightarrow> Inl (SchemaError e)
            | Inr parsed \<Rightarrow> Inr parsed)))"

section \<open>Nesting a flat dictionary: \<^verbatim>\<open>_convert_flat_to_nest\<close>\<close>

text \<open>
  The inner loop of \<^verbatim>\<open>_convert_flat_to_nest\<close> walks the segments of one key with
  \<^verbatim>\<open>last = last.setdefault(item, newd)\<close>, where \<^verbatim>\<open>newd\<close> is the value at the last segment
  and a fresh \<^verbatim>\<open>{}\<close> before. \<^verbatim>\<open>setdefault\<close> keeps an entry that is already there; when
  that entry is not a dictionary and segments remain, the next \<^verbatim>\<open>setdefault\<close> raises
  \<^verbatim>\<open>AttributeError\<close>. The segments are never converted: every key of the result is a
  string.
\<close>

fun setdefault_path ::
  "string list \<Rightarrow> 'a \<Rightarrow> (string \<times> 'a nest) list \<Rightarrow> error + (string \<times> 'a nest) list" where
  "setdefault_path [] v last_d = Inr last_d"
| "setdefault_path [item] v last_d =
     (case map_of last_d item of
        None \<Rightarrow> Inr (AList.update item (Leaf v) last_d)
      | Some x \<Rightarrow> Inr last_d)"
| "setdefault_path (item # segments) v last_d =
     (case map_of last_d item of
        None \<Rightarrow>
          (case setdefault_path segments v [] of
             Inl e \<Rightarrow> Inl e
           | Inr sub \<Rightarrow> Inr (AList.update item (Dict sub) last_d))
      | Some (Leaf x) \<Rightarrow> Inl (PyError AttributeError)
      | Some (Dict d) \<Rightarrow>
          (case setdefault_path segments v d of
             Inl e \<Rightarrow> Inl e
           | Inr sub \<Rightarrow> Inr (AList.update item (Dict sub) last_d)))"

fun convert_flat_to_nest_loop ::
  "(string \<times> 'a) list \<Rightarrow> (string \<times> 'a nest) list \<Rightarrow> error + (string \<times> 'a nest) list" where
  "convert_flat_to_nest_loop [] result = Inr result"
| "convert_flat_to_nest_loop ((k, v) # params) result =
     (case setdefault_path (split_dot k) v result of
        Inl e \<Rightarrow> Inl e
      | Inr result' \<Rightarrow> convert_flat_to_nest_loop params result')"

definition convert_flat_to_nest ::
  "(string \<times> 'a) list \<Rightarrow> error + (string \<times> 'a nest) list" where
  "convert_flat_to_nest params = convert_flat_to_nest_loop params []"

section \<open>The module-level \<^verbatim>\<open>extract\<close>\<close>

text \<open>
  The function \<^verbatim>\<open>extract\<close> of the module is \<open>extract_fn\<close> here. Its loop,
  \<open>extract_loop\<close>, takes the entries of the nested dictionary in the order in which they
  are visited; \<open>extract_fn\<close> runs it on the order of insertion, and a statement that is
  to hold in every visiting order is made about \<open>extract_loop\<close> on any such list. For each top-level name of the nested arguments: a name that is a key of the schema is
  parsed by its parameter into \<^verbatim>\<open>output\<close>, any other goes to \<^verbatim>\<open>rest\<close> with its whole
  subtree.
\<close>

fun extract_loop ::
  "env \<Rightarrow> (string \<times> param) list \<Rightarrow> (string \<times> string nest) list \<Rightarrow>
   (key \<times> value) list \<Rightarrow> (string \<times> string nest) list \<Rightarrow>
   error + (key \<times> value) list \<times> (string \<times> string nest) list" where
  "extract_loop E schema [] output rest = Inr (output, rest)"
| "extract_loop E schema ((k, v) # items) output rest =
     (case map_of schema k of
        Some p \<Rightarrow>
          (case parse E p v of
             Inl e \<Rightarrow> Inl e
           | Inr x \<Rightarrow> extract_loop E schema items (AList.update (KStr k) x output) rest)
      | None \<Rightarrow> extract_loop E schema items output (AList.update k v rest))"

definition extract_fn ::
  "env \<Rightarrow> (string \<times> string) list \<Rightarrow> (string \<times> param) list \<Rightarrow>
   error + (key \<times> value) list \<times> (string \<times> string nest) list" where
  "extract_fn E arguments schema =
     (case convert_flat_to_nest arguments of
        Inl e \<Rightarrow> Inl e
      | Inr nested \<Rightarrow> extract_loop E schema nested [] [])"

section \<open>Legacy schema conversion\<close>

text \<open>The constructors \<^verbatim>\<open>List(item=item)\<close> and \<^verbatim>\<open>Structure(fields=fields)\<close>.\<close>

definition List_init :: "string option \<Rightarrow> param option \<Rightarrow> bool \<Rightarrow> value \<Rightarrow> error + param" where
  "List_init n item opt dflt =
     (case item of
        None \<Rightarrow> Inl (SchemaError (MissingParameterError (Some ''Must provide item'')))
      | Some i \<Rightarrow> Inr (Parameter n opt dflt None None False None (List i)))"

definition Structure_init ::
  "string option \<Rightarrow> (string \<times> param) list option \<Rightarrow> bool \<Rightarrow> value \<Rightarrow> error + param" where
  "Structure_init n flds opt dflt =
     (case flds of
        None \<Rightarrow> Inl (SchemaError (MissingParameterError (Some ''Must provide fields'')))
      | Some fs \<Rightarrow> Inr (Parameter n opt dflt None None False None (Structure fs)))"

text \<open>
  \<^verbatim>\<open>_secret_convert_old_schema\<close>: a leaf is returned as it is; a dictionary at even depth
  becomes a Structure of its converted entries, a dictionary at odd depth must have one
  entry (the assertion), whose key is dropped and whose converted value is the item of a
  List.
\<close>

fun secret_convert_old_schema :: "param nest \<Rightarrow> nat \<Rightarrow> error + param"
and secret_convert_fields ::
  "(string \<times> param nest) list \<Rightarrow> nat \<Rightarrow> (string \<times> param) list \<Rightarrow> error + (string \<times> param) list"
where
  "secret_convert_old_schema (Leaf p) depth = Inr p"
| "secret_convert_old_schema (Dict stuff) depth =
     (if depth mod 2 = 0 then
        (case secret_convert_fields stuff depth [] of
           Inl e \<Rightarrow> Inl e
         | Inr flds \<Rightarrow> Structure_init None (Some flds) False VNone)
      else
        (case stuff of
           [(k, item)] \<Rightarrow>
             (case secret_convert_old_schema item (depth + 1) of
                Inl e \<Rightarrow> Inl e
              | Inr item' \<Rightarrow> List_init None (Some item') False VNone)
         | _ \<Rightarrow> Inl (PyError AssertionError)))"
| "secret_convert_fields [] depth flds = Inr flds"
| "secret_convert_fields ((k, v) # stuff) depth flds =
     (case secret_convert_old_schema v (depth + 1) of
        Inl e \<Rightarrow> Inl e
      | Inr p \<Rightarrow> secret_convert_fields stuff depth (AList.update k p flds))"

text \<open>
  \<^verbatim>\<open>_convert_old_schema\<close>: \<^verbatim>\<open>crap[parameter.name] = parameter\<close> for each parameter, then
  nest and convert at depth 0, and take the \<^verbatim>\<open>fields\<close> of the Structure. A name that is
  \<^verbatim>\<open>None\<close> has no \<^verbatim>\<open>split\<close>: \<^verbatim>\<open>AttributeError\<close>, the only exception nesting raises.
\<close>

fun crap_loop ::
  "param list \<Rightarrow> (string option \<times> param) list \<Rightarrow> (string option \<times> param) list" where
  "crap_loop [] crap = crap"
| "crap_loop (parameter # parameters) crap =
     crap_loop parameters (AList.update (name parameter) parameter crap)"

definition convert_old_schema :: "param list \<Rightarrow> error + (string \<times> param) list" where
  "convert_old_schema parameters =
     (let crap = crap_loop parameters [] in
      if None \<in> set (map fst crap) then Inl (PyError AttributeError)
      else
        (case convert_flat_to_nest (map (\<lambda>(k, v). (the k, v)) crap) of
           Inl e \<Rightarrow> Inl e
         | Inr nested \<Rightarrow>
             (case secret_convert_old_schema (Dict nested) 0 of
                Inl e \<Rightarrow> Inl e
              | Inr p \<Rightarrow>
                  (case ptype p of
                     Structure flds \<Rightarrow> Inr flds
                   | _ \<Rightarrow> Inl (PyError AttributeError)))))"

section \<open>\<^verbatim>\<open>Arguments\<close>\<close>

text \<open>
  \<^verbatim>\<open>Arguments(tree)\<close> stores \<^verbatim>\<open>_wrap(value)\<close> under each key. \<^verbatim>\<open>_wrap\<close> turns a
  dictionary with integer keys into the list of its wrapped values in key order, any other
  dictionary into an \<^verbatim>\<open>Arguments\<close>, and returns every other value, a list included, as it
  is. The values are wrapped here before they are sorted by key; the only exception
  \<^verbatim>\<open>_wrap\<close> raises is the \<^verbatim>\<open>RuntimeError\<close> on mixed keys (its message is kept without
  the list of keys), so the order makes no difference.
\<close>

definition is_KInt :: "key \<Rightarrow> bool" where
  "is_KInt k = (case k of KInt i \<Rightarrow> True | KStr s \<Rightarrow> False)"

definition key_int :: "key \<Rightarrow> int" where
  "key_int k = (case k of KInt i \<Rightarrow> i | KStr s \<Rightarrow> 0)"

fun wrap :: "value \<Rightarrow> error + value"
and wrap_items :: "(key \<times> value) list \<Rightarrow> (key \<times> value) list \<Rightarrow> error + (key \<times> value) list"
where
  "wrap (VDict d) =
     (if list_ex is_KInt (map fst d) then
        (if \<not> list_all is_KInt (map fst d)
         then Inl (PyError (RuntimeError ''Integer and non-integer keys''))
         else
           (case wrap_items d [] of
              Inl e \<Rightarrow> Inl e
            | Inr items \<Rightarrow> Inr (VList (map snd (sort_key (\<lambda>(k, v). key_int k) items)))))
      else
        (case wrap_items d [] of
           Inl e \<Rightarrow> Inl e
         | Inr items \<Rightarrow> Inr (VArguments items)))"
| "wrap VNone = Inr VNone"
| "wrap (VStr s) = Inr (VStr s)"
| "wrap (VUnicode u) = Inr (VUnicode u)"
| "wrap (VInt i) = Inr (VInt i)"
| "wrap (VBool b) = Inr (VBool b)"
| "wrap (VDate d) = Inr (VDate d)"
| "wrap (VList xs) = Inr (VList xs)"
| "wrap (VArguments a) = Inr (VArguments a)"
| "wrap_items [] dict = Inr dict"
| "wrap_items ((k, v) # tree) dict =
     (case wrap v of
        Inl e \<Rightarrow> Inl e
      | Inr w \<Rightarrow> wrap_items tree (AList.update k w dict))"

definition Arguments :: "(key \<times> value) list \<Rightarrow> error + value" where
  "Arguments tree =
     (case wrap_items tree [] of Inl e \<Rightarrow> Inl e | Inr dict \<Rightarrow> Inr (VArguments dict))"

section \<open>\<^verbatim>\<open>Schema\<close>\<close>

record schema =
  parameters :: "(string \<times> param) list"

definition Schema :: "param list \<Rightarrow> error + schema" where
  "Schema ps =
     (case convert_old_schema ps of
        Inl e \<Rightarrow> Inl e
      | Inr converted \<Rightarrow> Inr \<lparr>parameters = converted\<rparr>)"

text \<open>
  \<^verbatim>\<open>Schema.extract\<close> returns right after the module-level \<^verbatim>\<open>extract\<close> (and a
  \<^verbatim>\<open>print\<close>): the statements that follow the \<^verbatim>\<open>return\<close> in the source, the loop over
  \<^verbatim>\<open>_set_value\<close> and the loop over \<^verbatim>\<open>_ensure_tree\<close>, are never run.
\<close>

definition Schema_extract ::
  "env \<Rightarrow> schema \<Rightarrow> (string \<times> string) list \<Rightarrow> error + value \<times> (string \<times> string nest) list" where
  "Schema_extract E self params =
     (case extract_fn E params (parameters self) of
        Inl e \<Rightarrow> Inl e
      | Inr (tree, rest) \<Rightarrow>
          (case Arguments tree of
             Inl e \<Rightarrow> Inl e
           | Inr a \<Rightarrow> Inr (a, rest)))"

section \<open>Path templates, flattening and \<^verbatim>\<open>Schema.bundle\<close>\<close>

text \<open>\<^verbatim>\<open>Schema._get_template\<close>: every segment at an odd position becomes \<^verbatim>\<open>#\<close>.\<close>

fun template_parts :: "string list \<Rightarrow> string list" where
  "template_parts (a # b # parts) = a # ''#'' # template_parts parts"
| "template_parts parts = parts"

definition get_template :: "string \<Rightarrow> string" where
  "get_template k = join_dot (template_parts (split_dot k))"

text \<open>\<^verbatim>\<open>"%s" % name\<close> for a key, and \<^verbatim>\<open>path.lstrip(".")\<close>.\<close>

definition str_key :: "key \<Rightarrow> string" where
  "str_key k = (case k of KStr s \<Rightarrow> s | KInt i \<Rightarrow> str_int i)"

definition lstrip_dot :: "string \<Rightarrow> string" where
  "lstrip_dot path = dropWhile (\<lambda>c. c = CHR ''.'') path"

text \<open>
  \<^verbatim>\<open>Schema._flatten\<close>: an \<^verbatim>\<open>Arguments\<close> or a dictionary is entered with
  \<^verbatim>\<open>path.name\<close>, a list with \<^verbatim>\<open>path.(index + 1)\<close>; \<^verbatim>\<open>None\<close> is discarded and any other
  value is stored under the path.
\<close>

fun flatten :: "(string \<times> value) list \<Rightarrow> value \<Rightarrow> string \<Rightarrow> (string \<times> value) list"
and flatten_items ::
  "(string \<times> value) list \<Rightarrow> (key \<times> value) list \<Rightarrow> string \<Rightarrow> (string \<times> value) list"
and flatten_list ::
  "(string \<times> value) list \<Rightarrow> value list \<Rightarrow> string \<Rightarrow> nat \<Rightarrow> (string \<times> value) list"
where
  "flatten params (VArguments a) path = flatten_items params a path"
| "flatten params (VDict d) path = flatten_items params d path"
| "flatten params (VList xs) path = flatten_list params xs path 0"
| "flatten params VNone path = params"
| "flatten params v path = AList.update (lstrip_dot path) v params"
| "flatten_items params [] path = params"
| "flatten_items params ((n, v) # items) path =
     flatten_items (flatten params v (path @ ''.'' @ str_key n)) items path"
| "flatten_list params [] path index = params"
| "flatten_list params (v # vs) path index =
     flatten_list (flatten params v (path @ ''.'' @ str_int (int index + 1))) vs path (index + 1)"

subsection \<open>\<^verbatim>\<open>format\<close>\<close>

definition is_ascii :: "char \<Rightarrow> bool" where
  "is_ascii c = ((of_char c :: nat) < 128)"

text \<open>\<^verbatim>\<open>value.encode("utf-8")\<close>; a byte string is first decoded as ASCII.\<close>

definition Unicode_format :: "env \<Rightarrow> value \<Rightarrow> error + value" where
  "Unicode_format E v =
     (case v of
        VUnicode u \<Rightarrow> Inr (VStr (utf8_encode E u))
      | VStr s \<Rightarrow> if list_all is_ascii s then Inr (VStr s) else Inl (PyError UnicodeDecodeError)
      | _ \<Rightarrow> Inl (PyError AttributeError))"

text \<open>\<^verbatim>\<open>str(value)\<close>\<close>

definition Integer_format :: "env \<Rightarrow> value \<Rightarrow> error + value" where
  "Integer_format E v =
     (case v of
        VInt i \<Rightarrow> Inr (VStr (str_int i))
      | VBool b \<Rightarrow> Inr (VStr (if b then ''True'' else ''False''))
      | VStr s \<Rightarrow> Inr (VStr s)
      | VNone \<Rightarrow> Inr (VStr ''None'')
      | VUnicode u \<Rightarrow>
          if list_all (\<lambda>n. n < 128) u then Inr (VStr (map char_of u))
          else Inl (PyError UnicodeEncodeError)
      | _ \<Rightarrow> Inr (VStr (str_object E v)))"

text \<open>The truth value of a Python object (\<^verbatim>\<open>Arguments\<close> defines \<^verbatim>\<open>__len__\<close>).\<close>

definition truthy :: "value \<Rightarrow> bool" where
  "truthy v =
     (case v of
        VNone \<Rightarrow> False
      | VStr s \<Rightarrow> s \<noteq> []
      | VUnicode u \<Rightarrow> u \<noteq> []
      | VInt i \<Rightarrow> i \<noteq> 0
      | VBool b \<Rightarrow> b
      | VDate d \<Rightarrow> True
      | VList xs \<Rightarrow> xs \<noteq> []
      | VDict d \<Rightarrow> d \<noteq> []
      | VArguments a \<Rightarrow> a \<noteq> [])"

definition Bool_format :: "value \<Rightarrow> error + value" where
  "Bool_format v = (if truthy v then Inr (VStr ''true'') else Inr (VStr ''false''))"

text \<open>
  Equality of dictionary keys is Python's \<^verbatim>\<open>==\<close>: \<^verbatim>\<open>True == 1\<close>, a byte string equals
  the unicode string of the same ASCII characters, two aware datetimes are equal when
  they are the same instant. (An \<^verbatim>\<open>Arguments\<close> object is compared by identity in Python
  and by structure here.) Lists and dictionaries cannot be keys.
\<close>

definition is_leap :: "int \<Rightarrow> bool" where
  "is_leap y = (y mod 4 = 0 \<and> (if y mod 100 = 0 then y mod 400 = 0 else True))"

definition days_in_month :: "int \<Rightarrow> int \<Rightarrow> int" where
  "days_in_month y m =
     (if m = 2 then (if is_leap y then 29 else 28)
      else if m = 4 \<or> m = 6 \<or> m = 9 \<or> m = 11 then 30 else 31)"

definition days_before_year :: "int \<Rightarrow> int" where
  "days_before_year y = (y - 1) * 365 + (y - 1) div 4 - (y - 1) div 100 + (y - 1) div 400"

definition days_before_month :: "int \<Rightarrow> int \<Rightarrow> int" where
  "days_before_month y m = sum_list (map (\<lambda>k. days_in_month y (int k)) [1 ..< nat m])"

definition toordinal :: "datetime \<Rightarrow> int" where
  "toordinal d = days_before_year (year d) + days_before_month (year d) (month d) + day d"

text \<open>The instant of an aware datetime, in microseconds; \<open>None\<close> for a naive one.\<close>

definition utc_micros :: "datetime \<Rightarrow> int option" where
  "utc_micros d =
     (case tzinfo d of
        None \<Rightarrow> None
      | Some off \<Rightarrow>
          Some ((((toordinal d * 24 + hour d) * 60 + minute d) * 60 + second d - off) * 1000000
                + microsecond d))"

fun py_eq :: "value \<Rightarrow> value \<Rightarrow> bool" where
  "py_eq (VBool b) (VInt i) = (i = (if b then 1 else 0))"
| "py_eq (VInt i) (VBool b) = (i = (if b then 1 else 0))"
| "py_eq (VStr s) (VUnicode u) = (list_all is_ascii s \<and> map of_char s = u)"
| "py_eq (VUnicode u) (VStr s) = (list_all is_ascii s \<and> map of_char s = u)"
| "py_eq (VDate a) (VDate b) =
     (if tzinfo a \<noteq> None \<and> tzinfo b \<noteq> None then utc_micros a = utc_micros b else a = b)"
| "py_eq a b = (a = b)"

definition hashable :: "value \<Rightarrow> bool" where
  "hashable v = (case v of VList xs \<Rightarrow> False | VDict d \<Rightarrow> False | _ \<Rightarrow> True)"


fun value_dict_get :: "(value \<times> 'a) list \<Rightarrow> value \<Rightarrow> 'a option" where
  "value_dict_get [] k = None"
| "value_dict_get ((k', v') # d) k = (if py_eq k' k then Some v' else value_dict_get d k)"

text \<open>\<^verbatim>\<open>self.reverse[value]\<close>\<close>

definition Enum_format :: "(value \<times> string) list \<Rightarrow> value \<Rightarrow> error + value" where
  "Enum_format reverse v =
     (if \<not> hashable v then Inl (PyError TypeError)
      else (case value_dict_get reverse v of
              None \<Rightarrow> Inl (PyError KeyError)
            | Some k \<Rightarrow> Inr (VStr k)))"

definition Date_format :: "env \<Rightarrow> value \<Rightarrow> error + value" where
  "Date_format E v =
     (case v of
        VDate d \<Rightarrow> (case utc_strftime E d of Inl e \<Rightarrow> Inl (PyError e) | Inr s \<Rightarrow> Inr (VStr s))
      | _ \<Rightarrow> Inl (PyError AttributeError))"

text \<open>\<^verbatim>\<open>format\<close> dispatches on the class; List and Structure inherit the base method.\<close>

definition format_p :: "env \<Rightarrow> param \<Rightarrow> value \<Rightarrow> error + value" where
  "format_p E self v =
     (case ptype self of
        Unicode \<Rightarrow> Unicode_format E v
      | RawStr \<Rightarrow> Inr v
      | Integer \<Rightarrow> Integer_format E v
      | Bool \<Rightarrow> Bool_format v
      | Enum mapping reverse \<Rightarrow> Enum_format reverse v
      | Date \<Rightarrow> Date_format E v
      | List item \<Rightarrow> Inl (PyError NotImplementedError)
      | Structure flds \<Rightarrow> Inl (PyError NotImplementedError))"

subsection \<open>\<^verbatim>\<open>Enum.__init__\<close>\<close>



subsection \<open>\<^verbatim>\<open>Schema.bundle\<close>\<close>

fun bundle_loop ::
  "env \<Rightarrow> schema \<Rightarrow> (string \<times> value) list \<Rightarrow> (string \<times> value) list \<Rightarrow>
   error + (string \<times> value) list" where
  "bundle_loop E self [] params = Inr params"
| "bundle_loop E self ((n, v) # items) params =
     (case map_of (parameters self) (get_template n) of
        None \<Rightarrow>
          Inl (PyError (RuntimeError (''Parameter '' @ [CHR 0x27] @ n @ [CHR 0x27] @ '' not in schema'')))
      | Some parameter \<Rightarrow>
          if v = VNone then bundle_loop E self items (AList.update n (VStr []) params)
          else
            (case format_p E parameter v of
               Inl e \<Rightarrow> Inl e
             | Inr f \<Rightarrow> bundle_loop E self items (AList.update n f params)))"

text \<open>\<^verbatim>\<open>Schema.bundle\<close> with its positional \<^verbatim>\<open>arguments\<close> and its keyword arguments \<^verbatim>\<open>extra\<close>.\<close>

definition Schema_bundle ::
  "env \<Rightarrow> schema \<Rightarrow> value list \<Rightarrow> (string \<times> value) list \<Rightarrow> error + (string \<times> value) list" where
  "Schema_bundle E self arguments extra =
     (let params = foldl (\<lambda>ps argument. flatten ps argument []) [] arguments;
          params' = flatten params (VDict (map (\<lambda>(k, v). (KStr k, v)) extra)) []
      in bundle_loop E self params' params')"

section \<open>\<^verbatim>\<open>Schema._set_value\<close> and \<^verbatim>\<open>Schema._ensure_tree\<close>\<close>

text \<open>
  The first loop of \<^verbatim>\<open>_set_value\<close>: a segment at an odd index must be the literal of a
  non-negative integer, or \<^verbatim>\<open>UnknownParameterError(path)\<close> is raised.
\<close>

fun set_value_nodes :: "string \<Rightarrow> nat \<Rightarrow> string list \<Rightarrow> error + key list" where
  "set_value_nodes path index [] = Inr []"
| "set_value_nodes path index (node # segments) =
     (if index mod 2 = 1 then
        (case py_int node of
           None \<Rightarrow> Inl (SchemaError (UnknownParameterError path))
         | Some i \<Rightarrow>
             if i < 0 then Inl (SchemaError (UnknownParameterError path))
             else
               (case set_value_nodes path (index + 1) segments of
                  Inl e \<Rightarrow> Inl e
                | Inr nodes \<Rightarrow> Inr (KInt i # nodes)))
      else
        (case set_value_nodes path (index + 1) segments of
           Inl e \<Rightarrow> Inl e
         | Inr nodes \<Rightarrow> Inr (KStr node # nodes)))"

text \<open>\<^verbatim>\<open>tree[node] = value\<close> on whatever object \<^verbatim>\<open>tree\<close> is.\<close>

definition setitem :: "value \<Rightarrow> key \<Rightarrow> value \<Rightarrow> error + value" where
  "setitem tree node v =
     (case tree of
        VDict d \<Rightarrow> Inr (VDict (AList.update node v d))
      | VList xs \<Rightarrow>
          (case node of
             KInt i \<Rightarrow>
               (case list_setitem xs i v of Inl e \<Rightarrow> Inl (PyError e) | Inr ys \<Rightarrow> Inr (VList ys))
           | KStr s \<Rightarrow> Inl (PyError TypeError))
      | _ \<Rightarrow> Inl (PyError TypeError))"

text \<open>
  The second loop, \<^verbatim>\<open>tree = tree.setdefault(node, {})\<close> along all nodes but the last,
  and the final assignment. Only a dictionary has \<^verbatim>\<open>setdefault\<close>.
\<close>

fun set_value_at :: "key list \<Rightarrow> value \<Rightarrow> value \<Rightarrow> error + value" where
  "set_value_at [] v tree = Inl (PyError IndexError)"
| "set_value_at [node] v tree = setitem tree node v"
| "set_value_at (node # nodes) v tree =
     (case tree of
        VDict d \<Rightarrow>
          (case set_value_at nodes v (case map_of d node of None \<Rightarrow> VDict [] | Some sub \<Rightarrow> sub) of
             Inl e \<Rightarrow> Inl e
           | Inr sub' \<Rightarrow> Inr (VDict (AList.update node sub' d)))
      | _ \<Rightarrow> Inl (PyError AttributeError))"

definition set_value :: "value \<Rightarrow> string \<Rightarrow> value \<Rightarrow> error + value" where
  "set_value tree path v =
     (case set_value_nodes path 0 (split_dot path) of
        Inl e \<Rightarrow> Inl e
      | Inr nodes \<Rightarrow> set_value_at nodes v tree)"

text \<open>
  \<^verbatim>\<open>_ensure_tree\<close> with \<^verbatim>\<open>tree\<close>, \<^verbatim>\<open>parameter\<close> and the list of \<^verbatim>\<open>node\<close> and \<^verbatim>\<open>nodes\<close>, where the nodes are the segments of a
  template. At the last, non-wildcard node a missing entry is made by
  \<^verbatim>\<open>parameter.coerce(None)\<close>.
\<close>

fun ensure_tree :: "env \<Rightarrow> value \<Rightarrow> param \<Rightarrow> string list \<Rightarrow> error + value"
and ensure_subtrees ::
  "env \<Rightarrow> (key \<times> value) list \<Rightarrow> param \<Rightarrow> string list \<Rightarrow> error + (key \<times> value) list"
where
  "ensure_tree E tree parameter [] = Inl (PyError TypeError)"
| "ensure_tree E tree parameter (node # nodes) =
     (case tree of
        VDict d \<Rightarrow>
          if node = ''#'' then
            (if nodes = [] then
               (if length d = 0 \<and> \<not> optional parameter
                then Inl (SchemaError (MissingParameterError (name parameter)))
                else Inr (VDict d))
             else
               (case ensure_subtrees E d parameter nodes of
                  Inl e \<Rightarrow> Inl e
                | Inr d' \<Rightarrow> Inr (VDict d')))
          else
            (if nodes = [] then
               (case map_of d (KStr node) of
                  None \<Rightarrow>
                    (case coerce E parameter None of
                       Inl e \<Rightarrow> Inl e
                     | Inr v \<Rightarrow> Inr (VDict (AList.update (KStr node) v d)))
                | Some x \<Rightarrow> Inr (VDict d))
             else
               (case ensure_tree E (case map_of d (KStr node) of None \<Rightarrow> VDict [] | Some sub \<Rightarrow> sub)
                       parameter nodes of
                  Inl e \<Rightarrow> Inl e
                | Inr sub' \<Rightarrow> Inr (VDict (AList.update (KStr node) sub' d))))
      | _ \<Rightarrow> Inl (PyError AttributeError))"
| "ensure_subtrees E [] parameter nodes = Inr []"
| "ensure_subtrees E ((k, subtree) # d) parameter nodes =
     (case ensure_tree E subtree parameter nodes of
        Inl e \<Rightarrow> Inl e
      | Inr subtree' \<Rightarrow>
          (case ensure_subtrees E d parameter nodes of
             Inl e \<Rightarrow> Inl e
           | Inr d' \<Rightarrow> Inr ((k, subtree') # d')))"

section \<open>Constructors and an environment for the examples\<close>

text \<open>
  \<^verbatim>\<open>Integer.__init__\<close> passes its arguments on to \<^verbatim>\<open>Parameter.__init__\<close>; its default
  for \<^verbatim>\<open>min\<close> is 0. \<open>Integer_named n\<close> is \<^verbatim>\<open>Integer(n)\<close> and \<open>Unicode_named n\<close> is
  \<^verbatim>\<open>Unicode(n)\<close>, with every other argument at its default.
\<close>

definition Integer_init ::
  "string option \<Rightarrow> bool \<Rightarrow> value \<Rightarrow> int option \<Rightarrow> int option \<Rightarrow> bool \<Rightarrow> (value \<Rightarrow> bool) option \<Rightarrow> param" where
  "Integer_init n opt dflt mn mx an val = Parameter n opt dflt mn mx an val Integer"

definition Integer_named :: "string \<Rightarrow> param" where
  "Integer_named n = Integer_init (Some n) False VNone (Some 0) None False None"

definition Unicode_named :: "string \<Rightarrow> param" where
  "Unicode_named n = Parameter (Some n) False VNone None None False None Unicode"

text \<open>
  The examples are evaluated in \<open>ascii_env\<close>. It stands for the libraries on the data the
  examples use and on nothing else: the UTF-8 codec on ASCII text (a string with another
  byte is answered with \<open>None\<close>), \<^verbatim>\<open>dateutil.parser.parse\<close> on the ISO 8601 layout
  \<^verbatim>\<open>YYYY-MM-DDTHH:MM:SS\<close> followed by nothing, \<^verbatim>\<open>Z\<close> or \<^verbatim>\<open>+HH:MM\<close> / \<^verbatim>\<open>-HH:MM\<close>, the
  rendering of \<^verbatim>\<open>Date.format\<close> on a value that is naive or already in UTC from the year
  1900 on, and a fixed text for \<^verbatim>\<open>str()\<close> of other objects. The general statements below
  hold for every environment.
\<close>

definition iso_zone :: "string \<Rightarrow> int option option" where
  "iso_zone z =
     (if z = [] then Some None
      else if z = ''Z'' then Some (Some 0)
      else if length z = 6 \<and> z ! 3 = CHR '':'' \<and> (z ! 0 = CHR ''+'' \<or> z ! 0 = CHR ''-'') then
        (case (digits_int (take 2 (drop 1 z)), digits_int (drop 4 z)) of
           (Some h, Some m) \<Rightarrow>
             Some (Some ((if z ! 0 = CHR ''-'' then - 1 else 1) * (h * 3600 + m * 60)))
         | _ \<Rightarrow> None)
      else None)"

definition iso8601 :: "string \<Rightarrow> datetime option" where
  "iso8601 s =
     (if length s < 19 \<or> s ! 4 \<noteq> CHR ''-'' \<or> s ! 7 \<noteq> CHR ''-'' \<or> s ! 10 \<noteq> CHR ''T''
         \<or> s ! 13 \<noteq> CHR '':'' \<or> s ! 16 \<noteq> CHR '':'' then None
      else
        (case (digits_int (take 4 s), digits_int (take 2 (drop 5 s)),
               digits_int (take 2 (drop 8 s)), digits_int (take 2 (drop 11 s)),
               digits_int (take 2 (drop 14 s)), digits_int (take 2 (drop 17 s)),
               iso_zone (drop 19 s)) of
           (Some y, Some mo, Some d, Some h, Some mi, Some se, Some z) \<Rightarrow>
             if 1 \<le> y \<and> 1 \<le> mo \<and> mo \<le> 12 \<and> 1 \<le> d \<and> d \<le> days_in_month y mo
                \<and> h < 24 \<and> mi < 60 \<and> se < 60
             then Some \<lparr>year = y, month = mo, day = d, hour = h, minute = mi, second = se,
                         microsecond = 0, tzinfo = z\<rparr>
             else None
         | _ \<Rightarrow> None))"

definition pad2 :: "int \<Rightarrow> string" where
  "pad2 i = (if i < 10 then CHR ''0'' # str_int i else str_int i)"

definition ascii_env :: env where
  "ascii_env =
     \<lparr>utf8_decode = (\<lambda>s. if list_all is_ascii s then Some (map of_char s) else None),
      utf8_encode = (\<lambda>u. map char_of u),
      dateutil_parse =
        (\<lambda>v. case v of
               Leaf s \<Rightarrow> (case iso8601 s of None \<Rightarrow> Inl ValueError | Some d \<Rightarrow> Inr d)
             | Dict d \<Rightarrow> Inl TypeError),
      utc_strftime =
        (\<lambda>d. if year d < 1900 \<or> (tzinfo d \<noteq> None \<and> tzinfo d \<noteq> Some 0) then Inl ValueError
              else Inr (str_int (year d) @ ''-'' @ pad2 (month d) @ ''-'' @ pad2 (day d) @ ''T''
                        @ pad2 (hour d) @ '':'' @ pad2 (minute d) @ '':'' @ pad2 (second d) @ ''Z'')),
      str_object = (\<lambda>v. ''<object>'')\<rparr>"

section \<open>Notions used in the statements\<close>



text \<open>
  The segments at odd positions (\<^verbatim>\<open>parts[1::2]\<close>), a segment that is not the literal of a
  non-negative integer, the nodes of a path whose odd segments are read as integers, and
  the tree that holds one value under a chain of nodes.
\<close>

fun odd_segments :: "string list \<Rightarrow> string list" where
  "odd_segments (a # b # parts) = b # odd_segments parts"
| "odd_segments parts = []"

definition bad_index :: "string \<Rightarrow> bool" where
  "bad_index s = (case py_int s of None \<Rightarrow> True | Some i \<Rightarrow> i < 0)"

fun index_nodes :: "string list \<Rightarrow> key list" where
  "index_nodes (a # b # parts) =
     KStr a # KInt (case py_int b of None \<Rightarrow> 0 | Some i \<Rightarrow> i) # index_nodes parts"
| "index_nodes [a] = [KStr a]"
| "index_nodes [] = []"

fun chain :: "key list \<Rightarrow> value \<Rightarrow> value" where
  "chain [] v = v"
| "chain (node # nodes) v = VDict [(node, chain nodes v)]"

fun nest_chain :: "string list \<Rightarrow> 'a \<Rightarrow> 'a nest" where
  "nest_chain [] v = Leaf v"
| "nest_chain (s # segs) v = Dict [(s, nest_chain segs v)]"




text \<open>
  The value of a tree of dictionaries at a list of nodes, and a tree in which every object
  that the walk of \<^verbatim>\<open>_set_value\<close> along the nodes meets is a dictionary.
\<close>

fun value_get :: "value \<Rightarrow> key list \<Rightarrow> value option" where
  "value_get t [] = Some t"
| "value_get (VDict d) (n # ns) =
     (case map_of d n of None \<Rightarrow> None | Some sub \<Rightarrow> value_get sub ns)"
| "value_get t (n # ns) = None"

fun walkable :: "value \<Rightarrow> key list \<Rightarrow> bool" where
  "walkable (VDict d) [n] = True"
| "walkable (VDict d) (n # ns) =
     (case map_of d n of None \<Rightarrow> True | Some sub \<Rightarrow> walkable sub ns)"
| "walkable t ns = False"


section \<open>Properties\<close>

subsection \<open>Auxiliary facts\<close>

lemmas int_simps = py_int_def strip_def is_space_def digits_int_def is_digit_def digit_val_def

lemma split_dot_nonempty: "split_dot k \<noteq> []"
  by (induction k) (auto split: list.splits)

lemma leaf_parsers_not_SchemaError:
  "Unicode_parse E v \<noteq> Inl (SchemaError e)"
  "RawStr_parse E v \<noteq> Inl (SchemaError e)"
  "Integer_parse v \<noteq> Inl (SchemaError e)"
  "Bool_parse v \<noteq> Inl (SchemaError e)"
  "Enum_parse mapping v \<noteq> Inl (SchemaError e)"
  "Date_parse E v \<noteq> Inl (SchemaError e)"
  by (simp_all add: Unicode_parse_def RawStr_parse_def Integer_parse_def Bool_parse_def
      Enum_parse_def Date_parse_def split: nest.splits option.splits sum.splits)

lemma parse_not_SchemaError:
  "parse E p v \<noteq> Inl (SchemaError e)"
  "List_parse_loop E item items r \<noteq> Inl (SchemaError e)"
  "Structure_parse_loop E flds items' r' \<noteq> Inl (SchemaError e)"
proof (induction E p v and E item items r and E flds items' r'
       rule: parse_List_parse_loop_Structure_parse_loop.induct)
  case (1 E self s)
  show ?case
    by (cases "ptype self") (simp_all add: leaf_parsers_not_SchemaError)
next
  case (2 E self items)
  show ?case
  proof (cases "ptype self")
    case (List item)
    then show ?thesis using 2(1) by (auto split: sum.splits)
  next
    case (Structure flds)
    then show ?thesis using 2(2) by (auto split: sum.splits)
  qed (simp_all add: leaf_parsers_not_SchemaError)
next
  case (3 E item result)
  show ?case by simp
next
  case (4 E item k v rest result)
  then show ?case by (auto split: option.splits sum.splits)
next
  case (5 E flds result)
  show ?case by simp
next
  case (6 E flds k v rest result)
  then show ?case by (auto split: option.splits sum.splits)
qed

lemma Structure_parse_loop_unknown:
  "(k, v) \<in> set items \<Longrightarrow> map_of flds k = None \<Longrightarrow> \<exists>e. Structure_parse_loop E flds items r = Inl e"
  by (induction items arbitrary: r) (auto split: option.splits sum.splits)

lemma extract_loop_not_SchemaError:
  "extract_loop E schema items out rest \<noteq> Inl (SchemaError e)"
  by (induction items arbitrary: out rest) (auto simp: parse_not_SchemaError split: option.splits sum.splits)

lemma extract_loop_fails:
  "(n, v) \<in> set items \<Longrightarrow> map_of schema n = Some p \<Longrightarrow> parse E p v = Inl e
   \<Longrightarrow> \<exists>e'. extract_loop E schema items out rest = Inl e'"
  by (induction items arbitrary: out rest) (auto split: option.splits sum.splits)















subsection \<open>Coercion\<close>

text \<open>
  C4. For every parameter: \<^verbatim>\<open>coerce(None)\<close> returns the default when the parameter is
  optional and is otherwise treated exactly as \<^verbatim>\<open>coerce("")\<close>; \<^verbatim>\<open>coerce("")\<close> raises
  \<^verbatim>\<open>MissingParameterError\<close> with the parameter's name when \<^verbatim>\<open>allow_none\<close> is false and
  returns the default when it is true.
\<close>

theorem coerce_absent_and_empty:
  "(optional p \<longrightarrow> coerce E p None = Inr (default_p p)) \<and>
   (\<not> optional p \<longrightarrow> coerce E p None = coerce E p (Some [])) \<and>
   (\<not> allow_none p \<longrightarrow> coerce E p (Some []) = Inl (SchemaError (MissingParameterError (name p)))) \<and>
   (allow_none p \<longrightarrow> coerce E p (Some []) = Inr (default_p p))"
  by (simp add: coerce_def)

text \<open>
  C4 at a required parameter \<^verbatim>\<open>Integer("Count")\<close> and at an optional raw string with
  \<^verbatim>\<open>allow_none\<close> and the default \<^verbatim>\<open>"none"\<close>.
\<close>

theorem coerce_absent_and_empty_witness:
  "coerce ascii_env (Integer_named ''Count'') None = coerce ascii_env (Integer_named ''Count'') (Some [])
   \<and> coerce ascii_env (Integer_named ''Count'') (Some [])
       = Inl (SchemaError (MissingParameterError (Some ''Count'')))
   \<and> coerce ascii_env (Parameter (Some ''Tag'') True (VStr ''none'') None None True None RawStr) None
       = Inr (VStr ''none'')
   \<and> coerce ascii_env (Parameter (Some ''Tag'') True (VStr ''none'') None None True None RawStr) (Some [])
       = Inr (VStr ''none'')"
  using coerce_absent_and_empty[of "Integer_named ''Count''" ascii_env]
    coerce_absent_and_empty[of "Parameter (Some ''Tag'') True (VStr ''none'') None None True None RawStr" ascii_env]
  by (simp add: Integer_named_def Integer_init_def)

text \<open>
  C8, as stated, fails when a validator rejects 0: \<^verbatim>\<open>coerce("0")\<close> of
  \<^verbatim>\<open>Integer("Count", validator=lambda v: v != 0)\<close> raises \<^verbatim>\<open>InvalidParameterValueError\<close>.
\<close>

theorem Integer_coerce_zero_rejected_by_validator:
  "coerce ascii_env (Integer_init (Some ''Count'') False VNone (Some 0) None False (Some (\<lambda>v. v \<noteq> VInt 0)))
      (Some ''0'')
     = Inl (SchemaError (InvalidParameterValueError (Invalid_value_message ''integer'' [48])))"
  by (simp add: coerce_def coerce_try_def coerce_except_def check_range_def measure_p_def
      Integer_init_def Integer_parse_def kind_def is_ValueError_def ascii_env_def is_ascii_def int_simps)

text \<open>
  C8, amended. For every Integer parameter with \<^verbatim>\<open>min = 0\<close> and no maximum,
  \<^verbatim>\<open>coerce("-1")\<close> raises \<^verbatim>\<open>InvalidParameterValueError\<close>; \<^verbatim>\<open>coerce("0")\<close> returns 0
  exactly when the parameter has no validator or its validator accepts 0, and raises
  \<^verbatim>\<open>InvalidParameterValueError\<close> otherwise.
\<close>

theorem Integer_coerce_default_min:
  assumes "ptype p = Integer" and "min_p p = Some 0" and "max_p p = None"
  shows "(\<exists>m. coerce E p (Some ''-1'') = Inl (SchemaError (InvalidParameterValueError m))) \<and>
         (if validator p = None then True else the (validator p) (VInt 0))
           = (coerce E p (Some ''0'') = Inr (VInt 0)) \<and>
         (\<exists>r. coerce E p (Some ''0'') = Inr (VInt 0) \<or>
              coerce E p (Some ''0'') = Inl (SchemaError (InvalidParameterValueError r)))"
proof -
  have m1: "py_int ''-1'' = Some (- 1)" by (simp add: int_simps)
  have m0: "py_int ''0'' = Some 0" by (simp add: int_simps)
  have r1: "check_range p ''-1'' = Inl (SchemaError (InvalidParameterValueError
              (Range_message ''-1'' (name p) ''Value must be at least 0.'')))"
    using assms m1 by (simp add: check_range_def measure_p_def lower_than_min_template_def str_int_def)
  have r0: "check_range p ''0'' = Inr ()"
    using assms m0 by (simp add: check_range_def measure_p_def)
  have p0: "parse E p (Leaf ''0'') = Inr (VInt 0)"
    using assms m0 by (simp add: Integer_parse_def)
  have k: "kind p = Inr ''integer''" using assms by (simp add: kind_def)
  have first: "\<exists>m. coerce E p (Some ''-1'') = Inl (SchemaError (InvalidParameterValueError m))"
    using r1 by (simp add: coerce_def coerce_try_def)
  have t0: "coerce_try E p ''0'' =
      (if validator p \<noteq> None \<and> \<not> the (validator p) (VInt 0) then Inl (PyError ValueError) else Inr (VInt 0))"
    using r0 p0 by (simp add: coerce_try_def)
  have ex: "\<exists>r. coerce_except E p ''0'' = Inl (SchemaError (InvalidParameterValueError r))"
    using k by (simp add: coerce_except_def split: option.splits)
  have second: "(if validator p = None then True else the (validator p) (VInt 0))
           = (coerce E p (Some ''0'') = Inr (VInt 0))"
    using t0 ex by (auto simp: coerce_def is_ValueError_def)
  have third: "\<exists>r. coerce E p (Some ''0'') = Inr (VInt 0) \<or>
              coerce E p (Some ''0'') = Inl (SchemaError (InvalidParameterValueError r))"
    using t0 ex by (auto simp: coerce_def is_ValueError_def)
  show ?thesis using first second third by blast
qed

text \<open>C8 at \<^verbatim>\<open>Integer("Count")\<close>, which has no validator.\<close>

theorem Integer_coerce_default_min_witness:
  "(\<exists>m. coerce ascii_env (Integer_named ''Count'') (Some ''-1'') = Inl (SchemaError (InvalidParameterValueError m)))
   \<and> coerce ascii_env (Integer_named ''Count'') (Some ''0'') = Inr (VInt 0)"
  using Integer_coerce_default_min[of "Integer_named ''Count''" ascii_env]
  by (simp add: Integer_named_def Integer_init_def)

subsection \<open>Dates\<close>

text \<open>
  C9. Whenever \<^verbatim>\<open>dateutil\<close> reads the two strings as it should (17:00 at offset
  +05:00 and 12:00 at offset 0, the same instant), \<^verbatim>\<open>Date.parse\<close> returns 17:00 UTC
  for the first and 12:00 UTC for the second: \<^verbatim>\<open>replace(tzinfo=tzutc())\<close> drops the offset
  without converting, and the two results differ.
\<close>

theorem Date_parse_replaces_offset:
  assumes "dateutil_parse E (Leaf ''2010-01-01T17:00:00+05:00'')
             = Inr \<lparr>year = 2010, month = 1, day = 1, hour = 17, minute = 0, second = 0,
                    microsecond = 0, tzinfo = Some 18000\<rparr>"
    and "dateutil_parse E (Leaf ''2010-01-01T12:00:00Z'')
             = Inr \<lparr>year = 2010, month = 1, day = 1, hour = 12, minute = 0, second = 0,
                    microsecond = 0, tzinfo = Some 0\<rparr>"
  shows "Date_parse E (Leaf ''2010-01-01T17:00:00+05:00'')
           = Inr (VDate \<lparr>year = 2010, month = 1, day = 1, hour = 17, minute = 0, second = 0,
                    microsecond = 0, tzinfo = Some 0\<rparr>)
       \<and> Date_parse E (Leaf ''2010-01-01T12:00:00Z'')
           = Inr (VDate \<lparr>year = 2010, month = 1, day = 1, hour = 12, minute = 0, second = 0,
                    microsecond = 0, tzinfo = Some 0\<rparr>)
       \<and> Date_parse E (Leaf ''2010-01-01T17:00:00+05:00'') \<noteq> Date_parse E (Leaf ''2010-01-01T12:00:00Z'')
       \<and> utc_micros \<lparr>year = 2010, month = 1, day = 1, hour = 17, minute = 0, second = 0,
                    microsecond = 0, tzinfo = Some 18000\<rparr>
         = utc_micros \<lparr>year = 2010, month = 1, day = 1, hour = 12, minute = 0, second = 0,
                    microsecond = 0, tzinfo = Some 0\<rparr>
       \<and> \<not> py_eq (VDate \<lparr>year = 2010, month = 1, day = 1, hour = 17, minute = 0, second = 0,
                    microsecond = 0, tzinfo = Some 0\<rparr>)
                 (VDate \<lparr>year = 2010, month = 1, day = 1, hour = 12, minute = 0, second = 0,
                    microsecond = 0, tzinfo = Some 0\<rparr>)"
  using assms by (simp add: Date_parse_def utc_micros_def toordinal_def)

text \<open>C9 in the environment of the examples.\<close>

theorem Date_parse_replaces_offset_witness:
  "Date_parse ascii_env (Leaf ''2010-01-01T17:00:00+05:00'')
           = Inr (VDate \<lparr>year = 2010, month = 1, day = 1, hour = 17, minute = 0, second = 0,
                    microsecond = 0, tzinfo = Some 0\<rparr>)
       \<and> Date_parse ascii_env (Leaf ''2010-01-01T12:00:00Z'')
           = Inr (VDate \<lparr>year = 2010, month = 1, day = 1, hour = 12, minute = 0, second = 0,
                    microsecond = 0, tzinfo = Some 0\<rparr>)"
proof -
  have a: "dateutil_parse ascii_env (Leaf ''2010-01-01T17:00:00+05:00'')
             = Inr \<lparr>year = 2010, month = 1, day = 1, hour = 17, minute = 0, second = 0,
                    microsecond = 0, tzinfo = Some 18000\<rparr>"
    by (simp add: ascii_env_def iso8601_def iso_zone_def digits_int_def is_digit_def digit_val_def
        days_in_month_def)
  have b: "dateutil_parse ascii_env (Leaf ''2010-01-01T12:00:00Z'')
             = Inr \<lparr>year = 2010, month = 1, day = 1, hour = 12, minute = 0, second = 0,
                    microsecond = 0, tzinfo = Some 0\<rparr>"
    by (simp add: ascii_env_def iso8601_def iso_zone_def digits_int_def is_digit_def digit_val_def
        days_in_month_def)
  show ?thesis using Date_parse_replaces_offset[OF a b] by simp
qed

subsection \<open>Structures and extraction\<close>

text \<open>
  C10. For every Structure parameter and every input mapping with a field name that is not
  among the declared fields, \<^verbatim>\<open>Structure.parse\<close> raises an exception that is not a
  \<^verbatim>\<open>SchemaError\<close>; so does the extraction of any flat input whose nesting holds that
  mapping under a top-level name declared with that parameter. The unknown field is
  neither ignored nor returned as a leftover.
\<close>

theorem Structure_parse_unknown_field:
  assumes "ptype p = Structure flds" and "k \<in> fst ` set items" and "k \<notin> fst ` set flds"
  shows "(\<exists>e. parse E p (Dict items) = Inl (PyError e)) \<and>
         (\<forall>arguments schema nested n.
            convert_flat_to_nest arguments = Inr nested \<and> (n, Dict items) \<in> set nested
            \<and> map_of schema n = Some p
            \<longrightarrow> (\<exists>e. extract_fn E arguments schema = Inl (PyError e)))"
proof -
  have none: "map_of flds k = None" using assms(3) by (simp add: map_of_eq_None_iff)
  obtain v where v: "(k, v) \<in> set items" using assms(2) by auto
  obtain e0 where e0: "Structure_parse_loop E flds items [] = Inl e0"
    using Structure_parse_loop_unknown[OF v none] by blast
  then have p: "parse E p (Dict items) = Inl e0" using assms(1) by simp
  have first: "\<exists>e. parse E p (Dict items) = Inl (PyError e)"
    using p parse_not_SchemaError(1)[of E p "Dict items"] by (cases e0) auto
  have second: "\<exists>e. extract_fn E arguments schema = Inl (PyError e)"
    if a: "convert_flat_to_nest arguments = Inr nested" and b: "(n, Dict items) \<in> set nested"
       and c: "map_of schema n = Some p" for arguments schema nested n
  proof -
    obtain e' where "extract_loop E schema nested [] [] = Inl e'"
      using extract_loop_fails[OF b c p] by blast
    then show ?thesis
      using a extract_loop_not_SchemaError[of E schema nested "[]" "[]"]
      by (cases e') (auto simp: extract_fn_def)
  qed
  show ?thesis using first second by blast
qed

text \<open>
  C10 at the Structure with the one field \<^verbatim>\<open>a\<close>, an Integer, and the input
  \<^verbatim>\<open>{"s.a": "1", "s.zz": "2"}\<close>.
\<close>

theorem Structure_parse_unknown_field_witness:
  "(\<exists>e. parse ascii_env
           (Parameter (Some ''s'') False VNone None None False None
              (Structure [(''a'', Integer_named ''a'')]))
           (Dict [(''a'', Leaf ''1''), (''zz'', Leaf ''2'')]) = Inl (PyError e))
   \<and> (\<exists>e. extract_fn ascii_env [(''s.a'', ''1''), (''s.zz'', ''2'')]
           [(''s'', Parameter (Some ''s'') False VNone None None False None
                      (Structure [(''a'', Integer_named ''a'')]))] = Inl (PyError e))"
proof -
  let ?p = "Parameter (Some ''s'') False VNone None None False None
              (Structure [(''a'', Integer_named ''a'')])"
  let ?items = "[(''a'', Leaf ''1''), (''zz'', Leaf ''2'')]"
  have t: "ptype ?p = Structure [(''a'', Integer_named ''a'')]" by simp
  have k: "''zz'' \<in> fst ` set ?items" by simp
  have u: "''zz'' \<notin> fst ` set [(''a'', Integer_named ''a'')]" by simp
  have n: "convert_flat_to_nest [(''s.a'', ''1''), (''s.zz'', ''2'')] = Inr [(''s'', Dict ?items)]"
    by (simp add: convert_flat_to_nest_def)
  have m: "(''s'', Dict ?items) \<in> set [(''s'', Dict ?items)]" by simp
  have s: "map_of [(''s'', ?p)] ''s'' = Some ?p" by simp
  from Structure_parse_unknown_field[OF t k u, of ascii_env] n m s show ?thesis by blast
qed




subsection \<open>Missing parameters, bundling, legacy conversion\<close>

text \<open>
  C1. The schema of the required \<^verbatim>\<open>Integer("Count")\<close> extracts the empty input to an
  empty \<^verbatim>\<open>Arguments\<close> and raises nothing, in every environment; \<^verbatim>\<open>_ensure_tree\<close>, which
  \<^verbatim>\<open>Schema.extract\<close> no longer reaches, raises \<^verbatim>\<open>MissingParameterError("Count")\<close> on the
  same empty tree.
\<close>

theorem extract_missing_required_parameter:
  "Schema [Integer_named ''Count''] = Inr \<lparr>parameters = [(''Count'', Integer_named ''Count'')]\<rparr>
   \<and> Schema_extract E \<lparr>parameters = [(''Count'', Integer_named ''Count'')]\<rparr> []
       = Inr (VArguments [], [])
   \<and> ensure_tree E (VDict []) (Integer_named ''Count'') [''Count'']
       = Inl (SchemaError (MissingParameterError (Some ''Count'')))"
  by (simp add: Schema_def convert_old_schema_def convert_flat_to_nest_def Integer_named_def
      Integer_init_def List_init_def Structure_init_def Schema_extract_def extract_fn_def
      Arguments_def coerce_def)

text \<open>
  C2. For the schema of \<^verbatim>\<open>Unicode("Name.#")\<close>, the example of the docstring of
  \<^verbatim>\<open>Schema.__init__\<close>, extraction of \<^verbatim>\<open>{"Name.1": "a"}\<close> gives the \<^verbatim>\<open>Arguments\<close> whose
  \<^verbatim>\<open>Name\<close> is the list of \<^verbatim>\<open>u"a"\<close>, and bundling that \<^verbatim>\<open>Arguments\<close> raises
  \<^verbatim>\<open>RuntimeError\<close>: the template \<^verbatim>\<open>Name.#\<close> of the flattened key \<^verbatim>\<open>Name.1\<close> is looked up
  among the converted parameters, whose only key is \<^verbatim>\<open>Name\<close>.
\<close>

theorem bundle_after_extract_raises:
  "Schema [Unicode_named ''Name.#'']
     = Inr \<lparr>parameters = [(''Name'', Parameter None False VNone None None False None
                                      (List (Unicode_named ''Name.#'')))]\<rparr>
   \<and> Schema_extract ascii_env
        \<lparr>parameters = [(''Name'', Parameter None False VNone None None False None
                                      (List (Unicode_named ''Name.#'')))]\<rparr>
        [(''Name.1'', ''a'')]
       = Inr (VArguments [(KStr ''Name'', VList [VUnicode [97]])], [])
   \<and> Schema_bundle ascii_env
        \<lparr>parameters = [(''Name'', Parameter None False VNone None None False None
                                      (List (Unicode_named ''Name.#'')))]\<rparr>
        [VArguments [(KStr ''Name'', VList [VUnicode [97]])]] []
       = Inl (PyError (RuntimeError (''Parameter '' @ [CHR 0x27] @ ''Name.1'' @ [CHR 0x27]
                                      @ '' not in schema'')))"
  by (simp add: Schema_def convert_old_schema_def convert_flat_to_nest_def Unicode_named_def
      List_init_def Structure_init_def Schema_extract_def extract_fn_def Unicode_parse_def
      ascii_env_def is_ascii_def int_simps list_setitem_def Arguments_def Schema_bundle_def
      str_key_def str_int_def lstrip_dot_def get_template_def)

text \<open>
  C5. The legacy parameters \<^verbatim>\<open>Integer("foo.bar.baz")\<close> and \<^verbatim>\<open>Integer("foo.bar.shimmy")\<close>
  convert to a schema whose \<^verbatim>\<open>foo\<close> is a List of a Structure with the Integer fields
  \<^verbatim>\<open>baz\<close> and \<^verbatim>\<open>shimmy\<close>, and extracting
  \<^verbatim>\<open>{"foo.1.baz": "5", "foo.1.shimmy": "6"}\<close> gives \<^verbatim>\<open>foo[0] == {"baz": 5, "shimmy": 6}\<close>,
  in every environment, in either order of the two parameters and in either order of the
  two input keys (the entries of a dictionary are listed in the order of their
  insertion).
\<close>

theorem legacy_conversion_example:
  "Schema [Integer_named ''foo.bar.baz'', Integer_named ''foo.bar.shimmy'']
     = Inr \<lparr>parameters =
         [(''foo'', Parameter None False VNone None None False None
            (List (Parameter None False VNone None None False None
               (Structure [(''baz'', Integer_named ''foo.bar.baz''),
                           (''shimmy'', Integer_named ''foo.bar.shimmy'')]))))]\<rparr>
   \<and> Schema_extract E
        \<lparr>parameters =
         [(''foo'', Parameter None False VNone None None False None
            (List (Parameter None False VNone None None False None
               (Structure [(''baz'', Integer_named ''foo.bar.baz''),
                           (''shimmy'', Integer_named ''foo.bar.shimmy'')]))))]\<rparr>
        [(''foo.1.baz'', ''5''), (''foo.1.shimmy'', ''6'')]
       = Inr (VArguments [(KStr ''foo'', VList [VDict [(KStr ''baz'', VInt 5),
                                                       (KStr ''shimmy'', VInt 6)]])], [])
   \<and> Schema_extract E
        \<lparr>parameters =
         [(''foo'', Parameter None False VNone None None False None
            (List (Parameter None False VNone None None False None
               (Structure [(''baz'', Integer_named ''foo.bar.baz''),
                           (''shimmy'', Integer_named ''foo.bar.shimmy'')]))))]\<rparr>
        [(''foo.1.shimmy'', ''6''), (''foo.1.baz'', ''5'')]
       = Inr (VArguments [(KStr ''foo'', VList [VDict [(KStr ''shimmy'', VInt 6),
                                                       (KStr ''baz'', VInt 5)]])], [])
   \<and> Schema [Integer_named ''foo.bar.shimmy'', Integer_named ''foo.bar.baz'']
     = Inr \<lparr>parameters =
         [(''foo'', Parameter None False VNone None None False None
            (List (Parameter None False VNone None None False None
               (Structure [(''shimmy'', Integer_named ''foo.bar.shimmy''),
                           (''baz'', Integer_named ''foo.bar.baz'')]))))]\<rparr>
   \<and> Schema_extract E
        \<lparr>parameters =
         [(''foo'', Parameter None False VNone None None False None
            (List (Parameter None False VNone None None False None
               (Structure [(''shimmy'', Integer_named ''foo.bar.shimmy''),
                           (''baz'', Integer_named ''foo.bar.baz'')]))))]\<rparr>
        [(''foo.1.baz'', ''5''), (''foo.1.shimmy'', ''6'')]
       = Inr (VArguments [(KStr ''foo'', VList [VDict [(KStr ''baz'', VInt 5),
                                                       (KStr ''shimmy'', VInt 6)]])], [])"
  by (simp add: Schema_def convert_old_schema_def convert_flat_to_nest_def Integer_named_def
      Integer_init_def List_init_def Structure_init_def Schema_extract_def extract_fn_def
      Integer_parse_def int_simps list_setitem_def Arguments_def)

subsection \<open>Index segments\<close>

lemma set_value_nodes_bad:
  "index mod 2 = 0 \<Longrightarrow> list_ex bad_index (odd_segments segs)
   \<Longrightarrow> set_value_nodes path index segs = Inl (SchemaError (UnknownParameterError path))"
proof (induction segs arbitrary: index rule: odd_segments.induct)
  case (1 a b parts)
  have i1: "(index + 1) mod 2 = 1" using 1(2) by presburger
  have i2: "(index + 1 + 1) mod 2 = 0" using 1(2) by presburger
  show ?case
  proof (cases "bad_index b")
    case True
    then show ?thesis using 1(2) i1
      by (auto simp: bad_index_def split: option.splits)
  next
    case False
    then have "list_ex bad_index (odd_segments parts)" using 1(3) by simp
    from 1(1)[OF i2 this] show ?thesis using 1(2) i1 False
      by (auto simp: bad_index_def split: option.splits)
  qed
qed simp_all

lemma set_value_nodes_good:
  "index mod 2 = 0 \<Longrightarrow> \<not> list_ex bad_index (odd_segments segs)
   \<Longrightarrow> set_value_nodes path index segs = Inr (index_nodes segs)"
proof (induction segs arbitrary: index rule: odd_segments.induct)
  case (1 a b parts)
  have i1: "(index + 1) mod 2 = 1" using 1(2) by presburger
  have i2: "(index + 1 + 1) mod 2 = 0" using 1(2) by presburger
  have nb: "\<not> bad_index b" and rest: "\<not> list_ex bad_index (odd_segments parts)"
    using 1(3) by simp_all
  from 1(1)[OF i2 rest] show ?case using 1(2) i1 nb
    by (auto simp: bad_index_def split: option.splits)
qed simp_all

lemma set_value_at_empty:
  "nodes \<noteq> [] \<Longrightarrow> set_value_at nodes v (VDict []) = Inr (chain nodes v)"
proof (induction nodes)
  case Nil
  then show ?case by simp
next
  case (Cons node nodes)
  show ?case
  proof (cases nodes)
    case Nil
    then show ?thesis by (simp add: setitem_def)
  next
    case (Cons n ns)
    then show ?thesis using Cons.IH by simp
  qed
qed

lemma index_nodes_nonempty: "segs \<noteq> [] \<Longrightarrow> index_nodes segs \<noteq> []"
  by (induction segs rule: index_nodes.induct) simp_all

lemma setdefault_path_empty:
  "segs \<noteq> [] \<Longrightarrow> setdefault_path segs v [] = Inr [(hd segs, nest_chain (tl segs) v)]"
proof (induction segs)
  case Nil
  then show ?case by simp
next
  case (Cons s segs)
  show ?case
  proof (cases segs)
    case Nil
    then show ?thesis by simp
  next
    case (Cons t ts)
    then show ?thesis using Cons.IH by simp
  qed
qed

lemma setdefault_path_not_SchemaError:
  "setdefault_path segs v d \<noteq> Inl (SchemaError e)"
  by (induction segs v d rule: setdefault_path.induct)
     (auto split: option.splits nest.splits sum.splits)

lemma nest_loop_not_SchemaError:
  "convert_flat_to_nest_loop params acc \<noteq> Inl (SchemaError e)"
  by (induction params arbitrary: acc)
     (auto simp: setdefault_path_not_SchemaError split: sum.splits)

lemma walkable_empty: "ns \<noteq> [] \<Longrightarrow> walkable (VDict []) ns"
proof (cases ns)
  case Nil
  assume "ns \<noteq> []"
  then show ?thesis using Nil by simp
next
  case (Cons n rest)
  then show ?thesis by (cases rest) simp_all
qed

lemma walkable_dict: "walkable t ns \<Longrightarrow> \<exists>d. t = VDict d"
  by (cases t) simp_all

lemma set_value_at_stores:
  "nodes \<noteq> [] \<Longrightarrow> walkable tree nodes
   \<Longrightarrow> \<exists>tree'. set_value_at nodes v tree = Inr tree' \<and> value_get tree' nodes = Some v
         \<and> (\<forall>q. \<not> prefix q nodes \<and> \<not> prefix nodes q \<longrightarrow> value_get tree' q = value_get tree q)"
proof (induction nodes arbitrary: tree)
  case Nil
  then show ?case by simp
next
  case (Cons n rest)
  obtain d where t: "tree = VDict d" using walkable_dict[OF Cons.prems(2)] by blast
  show ?case
  proof (cases rest)
    case Nil
    have 1: "set_value_at (n # rest) v tree = Inr (VDict (AList.update n v d))"
      using Nil t by (simp add: setitem_def)
    have 2: "value_get (VDict (AList.update n v d)) (n # rest) = Some v"
      using Nil by (simp add: update_conv')
    have 3: "value_get (VDict (AList.update n v d)) q = value_get tree q"
      if "\<not> prefix q (n # rest) \<and> \<not> prefix (n # rest) q" for q
    proof (cases q)
      case Nil
      then show ?thesis using that by simp
    next
      case (Cons m qs)
      then have "m \<noteq> n" using that \<open>rest = []\<close> by auto
      then show ?thesis using Cons t by (simp add: update_conv')
    qed
    show ?thesis using 1 2 3 by blast
  next
    case (Cons n2 ns)
    then have rne: "rest \<noteq> []" by simp
    let ?sub0 = "case map_of d n of None \<Rightarrow> VDict [] | Some sub \<Rightarrow> sub"
    have w: "walkable ?sub0 rest"
    proof (cases "map_of d n")
      case None
      then show ?thesis using walkable_empty[OF rne] by simp
    next
      case (Some sub)
      then show ?thesis using Cons.prems(2) t Cons by simp
    qed
    from Cons.IH[OF rne w] obtain sub' where
      s: "set_value_at rest v ?sub0 = Inr sub'" and g: "value_get sub' rest = Some v"
      and fr: "\<And>q. \<not> prefix q rest \<and> \<not> prefix rest q \<Longrightarrow> value_get sub' q = value_get ?sub0 q"
      by blast
    let ?t' = "VDict (AList.update n sub' d)"
    have 1: "set_value_at (n # rest) v tree = Inr ?t'" using s t Cons by simp
    have 2: "value_get ?t' (n # rest) = Some v" using g by (simp add: update_conv')
    have 3: "value_get ?t' q = value_get tree q"
      if inc: "\<not> prefix q (n # rest) \<and> \<not> prefix (n # rest) q" for q
    proof (cases q)
      case Nil
      then show ?thesis using inc by simp
    next
      case (Cons m qs)
      show ?thesis
      proof (cases "m = n")
        case False
        then show ?thesis using Cons t by (simp add: update_conv')
      next
        case True
        then have i2: "\<not> prefix qs rest \<and> \<not> prefix rest qs" using inc Cons by simp
        then have qne: "qs \<noteq> []" by auto
        have "value_get ?t' (n # qs) = value_get sub' qs" by (simp add: update_conv')
        also have "\<dots> = value_get ?sub0 qs" using fr[OF i2] .
        also have "\<dots> = value_get tree (n # qs)"
        proof (cases "map_of d n")
          case None
          then show ?thesis using t qne by (cases qs) simp_all
        next
          case (Some sub)
          then show ?thesis using t by simp
        qed
        finally show ?thesis using Cons True by simp
      qed
    qed
    show ?thesis using 1 2 3 by blast
  qed
qed

lemma set_value_at_not_SchemaError:
  "set_value_at nodes v tree \<noteq> Inl (SchemaError e)"
proof (induction nodes v tree rule: set_value_at.induct)
  case (1 v tree)
  then show ?case by simp
next
  case (2 node v tree)
  then show ?case
    by (cases tree; cases node) (simp_all add: setitem_def split: sum.splits)
next
  case (3 node n2 ns v tree)
  then show ?case by (cases tree) (auto split: sum.splits option.splits)
qed

text \<open>
  C7, as stated, fails. Nesting \<^verbatim>\<open>{"foo.x": "1"}\<close> raises nothing and keeps the segment
  \<^verbatim>\<open>x\<close>; extraction against a schema without \<^verbatim>\<open>foo\<close> returns it as a leftover, and
  against the schema of \<^verbatim>\<open>Integer("foo.n")\<close> it raises \<^verbatim>\<open>ValueError\<close>, not
  \<^verbatim>\<open>UnknownParameterError\<close>. The segment \<^verbatim>\<open>1\<close> of the well-formed key \<^verbatim>\<open>foo.1\<close> stays
  the string \<^verbatim>\<open>"1"\<close> in the nested tree.
\<close>

theorem nest_keeps_index_segments:
  "convert_flat_to_nest [(''foo.x'', ''1'')] = Inr [(''foo'', Dict [(''x'', Leaf ''1'')])]
   \<and> Schema_extract ascii_env \<lparr>parameters = []\<rparr> [(''foo.x'', ''1'')]
       = Inr (VArguments [], [(''foo'', Dict [(''x'', Leaf ''1'')])])
   \<and> Schema_extract ascii_env
        \<lparr>parameters = [(''foo'', Parameter None False VNone None None False None
                                     (List (Integer_named ''foo.n'')))]\<rparr>
        [(''foo.x'', ''1'')] = Inl (PyError ValueError)
   \<and> convert_flat_to_nest [(''foo.1'', ''1'')] = Inr [(''foo'', Dict [(''1'', Leaf ''1'')])]"
  by (simp add: convert_flat_to_nest_def Schema_extract_def extract_fn_def Arguments_def
      Integer_named_def Integer_init_def Integer_parse_def int_simps)

text \<open>
  C7, amended. \<^verbatim>\<open>Schema._set_value\<close> raises \<^verbatim>\<open>UnknownParameterError(path)\<close> for every
  path with a segment at an odd position that is not the literal of a non-negative
  integer. For every other path it raises no \<^verbatim>\<open>SchemaError\<close> and walks the nodes in which
  the odd segments are integers; when every object that this walk meets in the tree is a
  dictionary, it returns a tree that holds the value at those nodes and is unchanged at
  every list of nodes that neither is a prefix of them nor has them as a prefix (on an
  empty tree: the chain of those nodes down to the value). \<^verbatim>\<open>_convert_flat_to_nest\<close> never
  raises a \<^verbatim>\<open>SchemaError\<close> and nests a single key under its segments as they are.
\<close>

theorem set_value_index_segments:
  "(list_ex bad_index (odd_segments (split_dot path))
      \<longrightarrow> set_value tree path v = Inl (SchemaError (UnknownParameterError path)))
   \<and> (\<not> list_ex bad_index (odd_segments (split_dot path))
      \<longrightarrow> set_value tree path v = set_value_at (index_nodes (split_dot path)) v tree
          \<and> set_value (VDict []) path v = Inr (chain (index_nodes (split_dot path)) v)
          \<and> set_value tree path v \<noteq> Inl (SchemaError e')
          \<and> (walkable tree (index_nodes (split_dot path)) \<longrightarrow>
                (\<exists>tree'. set_value tree path v = Inr tree'
                   \<and> value_get tree' (index_nodes (split_dot path)) = Some v
                   \<and> (\<forall>q. \<not> prefix q (index_nodes (split_dot path))
                          \<and> \<not> prefix (index_nodes (split_dot path)) q
                        \<longrightarrow> value_get tree' q = value_get tree q))))
   \<and> convert_flat_to_nest params \<noteq> Inl (SchemaError e)
   \<and> convert_flat_to_nest [(path, x)]
       = Inr [(hd (split_dot path), nest_chain (tl (split_dot path)) x)]"
proof -
  have ne: "index_nodes (split_dot path) \<noteq> []"
    by (rule index_nodes_nonempty[OF split_dot_nonempty])
  have a: "set_value tree path v = Inl (SchemaError (UnknownParameterError path))"
    if "list_ex bad_index (odd_segments (split_dot path))"
    using set_value_nodes_bad[OF _ that, of 0 path] by (simp add: set_value_def)
  have b1: "set_value tree path v = set_value_at (index_nodes (split_dot path)) v tree"
    if "\<not> list_ex bad_index (odd_segments (split_dot path))" for tree
    using set_value_nodes_good[OF _ that, of 0 path] by (simp add: set_value_def)
  have b2: "set_value (VDict []) path v = Inr (chain (index_nodes (split_dot path)) v)"
    if "\<not> list_ex bad_index (odd_segments (split_dot path))"
    using b1[OF that, of "VDict []"] set_value_at_empty[OF ne, of v] by simp
  have b3: "set_value tree path v \<noteq> Inl (SchemaError e')"
    if "\<not> list_ex bad_index (odd_segments (split_dot path))"
    using b1[OF that, of tree] set_value_at_not_SchemaError by simp
  have b4: "\<exists>tree'. set_value tree path v = Inr tree'
                   \<and> value_get tree' (index_nodes (split_dot path)) = Some v
                   \<and> (\<forall>q. \<not> prefix q (index_nodes (split_dot path))
                          \<and> \<not> prefix (index_nodes (split_dot path)) q
                        \<longrightarrow> value_get tree' q = value_get tree q)"
    if "\<not> list_ex bad_index (odd_segments (split_dot path))"
      and "walkable tree (index_nodes (split_dot path))"
    using b1[OF that(1), of tree] set_value_at_stores[OF ne that(2), of v] by simp
  have c: "convert_flat_to_nest params \<noteq> Inl (SchemaError e)"
    by (simp add: convert_flat_to_nest_def nest_loop_not_SchemaError)
  have d: "convert_flat_to_nest [(path, x)]
             = Inr [(hd (split_dot path), nest_chain (tl (split_dot path)) x)]"
    using setdefault_path_empty[OF split_dot_nonempty[of path], of x]
    by (simp add: convert_flat_to_nest_def)
  show ?thesis using a b1 b2 b3 b4 c d by blast
qed

text \<open>
  C7 at the path \<^verbatim>\<open>foo.x.bar\<close>, and at the path \<^verbatim>\<open>foo.1.bar.2\<close> of the docstring on the
  tree \<^verbatim>\<open>{'foo': {1: {'a': 7}}, 'b': 8}\<close>: the value is stored and the entries \<^verbatim>\<open>a\<close> and
  \<^verbatim>\<open>b\<close> stay. On the tree \<^verbatim>\<open>{'foo': 'leaf'}\<close> the walk of \<^verbatim>\<open>foo.1\<close> meets a string, and
  \<^verbatim>\<open>_set_value\<close> raises \<^verbatim>\<open>TypeError\<close>.
\<close>

theorem set_value_index_segments_witness:
  "set_value (VDict []) ''foo.x.bar'' (VBool True)
     = Inl (SchemaError (UnknownParameterError ''foo.x.bar''))
   \<and> set_value (VDict []) ''foo.1.bar.2'' (VBool True)
     = Inr (VDict [(KStr ''foo'', VDict [(KInt 1, VDict [(KStr ''bar'',
              VDict [(KInt 2, VBool True)])])])])
   \<and> (\<exists>tree'.
        set_value (VDict [(KStr ''foo'', VDict [(KInt 1, VDict [(KStr ''a'', VInt 7)])]),
                          (KStr ''b'', VInt 8)]) ''foo.1.bar.2'' (VBool True) = Inr tree'
        \<and> value_get tree' [KStr ''foo'', KInt 1, KStr ''bar'', KInt 2] = Some (VBool True)
        \<and> value_get tree' [KStr ''foo'', KInt 1, KStr ''a''] = Some (VInt 7)
        \<and> value_get tree' [KStr ''b''] = Some (VInt 8))
   \<and> set_value (VDict [(KStr ''foo'', VStr ''leaf'')]) ''foo.1'' (VBool True)
       = Inl (PyError TypeError)"
proof -
  let ?tree = "VDict [(KStr ''foo'', VDict [(KInt 1, VDict [(KStr ''a'', VInt 7)])]),
                      (KStr ''b'', VInt 8)]"
  have bad: "list_ex bad_index (odd_segments (split_dot ''foo.x.bar''))"
    by (simp add: bad_index_def int_simps)
  have good: "\<not> list_ex bad_index (odd_segments (split_dot ''foo.1.bar.2''))"
    by (simp add: bad_index_def int_simps)
  have nodes: "index_nodes (split_dot ''foo.1.bar.2'') = [KStr ''foo'', KInt 1, KStr ''bar'', KInt 2]"
    by (simp add: int_simps)
  have w: "walkable ?tree (index_nodes (split_dot ''foo.1.bar.2''))"
    by (simp only: nodes) simp
  from set_value_index_segments[where path = "''foo.x.bar''" and tree = "VDict []"
      and v = "VBool True" and params = "[] :: (string \<times> string) list"
      and e = "UnknownParameterError []" and e' = "UnknownParameterError []"
      and x = "[] :: string"] bad
  have 1: "set_value (VDict []) ''foo.x.bar'' (VBool True)
     = Inl (SchemaError (UnknownParameterError ''foo.x.bar''))" by blast
  from set_value_index_segments[where path = "''foo.1.bar.2''" and tree = "VDict []"
      and v = "VBool True" and params = "[] :: (string \<times> string) list"
      and e = "UnknownParameterError []" and e' = "UnknownParameterError []"
      and x = "[] :: string"] good
  have "set_value (VDict []) ''foo.1.bar.2'' (VBool True)
     = Inr (chain (index_nodes (split_dot ''foo.1.bar.2'')) (VBool True))" by blast
  then have 2: "set_value (VDict []) ''foo.1.bar.2'' (VBool True)
     = Inr (VDict [(KStr ''foo'', VDict [(KInt 1, VDict [(KStr ''bar'',
              VDict [(KInt 2, VBool True)])])])])"
    by (simp only: nodes chain.simps)
  from set_value_index_segments[where path = "''foo.1.bar.2''" and tree = ?tree
      and v = "VBool True" and params = "[] :: (string \<times> string) list"
      and e = "UnknownParameterError []" and e' = "UnknownParameterError []"
      and x = "[] :: string"] good w
  obtain tree' where t: "set_value ?tree ''foo.1.bar.2'' (VBool True) = Inr tree'"
    and g: "value_get tree' (index_nodes (split_dot ''foo.1.bar.2'')) = Some (VBool True)"
    and fr: "\<And>q. \<not> prefix q (index_nodes (split_dot ''foo.1.bar.2''))
               \<and> \<not> prefix (index_nodes (split_dot ''foo.1.bar.2'')) q
               \<Longrightarrow> value_get tree' q = value_get ?tree q"
    by blast
  have fa: "value_get tree' [KStr ''foo'', KInt 1, KStr ''a''] = Some (VInt 7)"
    using fr[of "[KStr ''foo'', KInt 1, KStr ''a'']"] by (simp add: nodes)
  have fb: "value_get tree' [KStr ''b''] = Some (VInt 8)"
    using fr[of "[KStr ''b'']"] by (simp add: nodes)
  have 3: "\<exists>tree'. set_value ?tree ''foo.1.bar.2'' (VBool True) = Inr tree'
        \<and> value_get tree' [KStr ''foo'', KInt 1, KStr ''bar'', KInt 2] = Some (VBool True)
        \<and> value_get tree' [KStr ''foo'', KInt 1, KStr ''a''] = Some (VInt 7)
        \<and> value_get tree' [KStr ''b''] = Some (VInt 8)"
    using t g[unfolded nodes] fa fb by blast
  have 4: "set_value (VDict [(KStr ''foo'', VStr ''leaf'')]) ''foo.1'' (VBool True)
       = Inl (PyError TypeError)"
    by (simp add: set_value_def setitem_def int_simps)
  show ?thesis using 1 2 3 4 by blast
qed

subsection \<open>Enum\<close>
















end
